theory Spec2Isabelle
  imports Complex_Main "HOL-Library.Word" "HOL-Library.Log_Nat"
begin

section \<open>Python strings\<close>

text \<open>
  A Python \<open>str\<close> is modelled as a \<open>string\<close>, one \<open>char\<close> per code point, for the
  code points below 256 (ASCII and the Latin-1 supplement). The character classes below
  are Python's own on that range: \<open>str.isspace\<close> (also what \<open>\s\<close> of the \<open>re\<close> module
  and \<open>str.strip()\<close> use) and \<open>str.isalnum\<close>.
\<close>

definition isspace :: "char \<Rightarrow> bool" where
  "isspace c =
     (let n = (of_char c :: nat)
      in (9 \<le> n \<and> n \<le> 13) \<or> (28 \<le> n \<and> n \<le> 32) \<or> n = 133 \<or> n = 160)"


text \<open>\<open>s.strip()\<close> and \<open>s.strip(chars)\<close>: drop the characters of the class at both ends.\<close>

definition strip_with :: "(char \<Rightarrow> bool) \<Rightarrow> string \<Rightarrow> string" where
  "strip_with p s = rev (dropWhile p (rev (dropWhile p s)))"

definition strip :: "string \<Rightarrow> string" where
  "strip s = strip_with isspace s"


section \<open>The external generation service\<close>

text \<open>
  A call into a library that may raise is modelled by its outcome: \<open>Raises e\<close> carries
  \<open>str(e)\<close> of the exception, \<open>Returns v\<close> the value.
\<close>

datatype 'a outcome = Raises string | Returns 'a

text \<open>
  The token counters of the service's \<open>UsageMetadata\<close> message are protobuf \<open>int32\<close>
  fields, kept here as 32-bit words; Python reads them as the signed integers \<open>sint\<close> gives.
\<close>

record usage_metadata =
  prompt_token_count :: "32 word"
  candidates_token_count :: "32 word"
  total_token_count :: "32 word"

text \<open>
  The hosted model is a parameter of the development. \<open>svc n key prompt\<close> is what
  \<open>GenerativeModel('gemini-2.5-flash').generate_content(prompt)\<close>, followed by reading
  \<open>response.text\<close> and \<open>response.usage_metadata\<close>, does on the \<open>n\<close>-th request of the
  process under the configured key: it raises, or returns the text and the counters.
\<close>

type_synonym service = "nat \<Rightarrow> string \<Rightarrow> string \<Rightarrow> (string \<times> usage_metadata) outcome"

text \<open>
  The state of the \<open>genai\<close> client: the key set by \<open>genai.configure\<close> and the requests
  submitted so far, each with the key in effect and the prompt.
\<close>

record genai_state =
  configured_key :: "string option"
  requests :: "(string \<times> string) list"

section \<open>Prompt assembly and analysis (app.py)\<close>

text \<open>
  \<open>docs_contents\<close> is a \<open>dict\<close> from filename to text; it is modelled by its items in
  insertion order, which is the order \<open>.items()\<close> iterates in.
\<close>

type_synonym docs_dict = "(string \<times> string) list"

definition doc_block :: "string \<times> string \<Rightarrow> string" where
  "doc_block d = (case d of (filename, content) \<Rightarrow>
     ''\<newline>--- Document ('' @ filename @ '') ---\<newline>'' @ content @ ''\<newline>'')"

text \<open>The loop \<open>for filename, content in docs_contents.items(): combined_docs += ...\<close>.\<close>

fun combine_docs :: "string \<Rightarrow> docs_dict \<Rightarrow> string" where
  "combine_docs combined_docs [] = combined_docs"
| "combine_docs combined_docs (d # ds) = combine_docs (combined_docs @ doc_block d) ds"

definition role_instruction :: "bool \<Rightarrow> string" where
  "role_instruction is_checklist =
     (let r = ''You are a helpful assistant that analyzes documents.''
      in if is_checklist
         then r @ '' Your goal is to complete the provided checklist based on the documents. Ensure you fill in the 'Company name' field if present.''
         else r)"

definition build_prompt :: "string \<Rightarrow> docs_dict \<Rightarrow> bool \<Rightarrow> string" where
  "build_prompt instruction_content docs_contents is_checklist =
     ''\<newline>    '' @ role_instruction is_checklist
     @ ''\<newline>\<newline>    Here is the template/checklist you must follow for the output:\<newline>    ''
     @ instruction_content
     @ ''\<newline>\<newline>    Here are the documents to analyze:\<newline>    ''
     @ combine_docs [] docs_contents
     @ ''\<newline>\<newline>    Please analyze the documents and produce an output that strictly follows the format and structure of the provided template/checklist.\<newline>    ''"

definition analyze_documents ::
  "service \<Rightarrow> genai_state \<Rightarrow> string \<Rightarrow> string \<Rightarrow> docs_dict \<Rightarrow> bool
     \<Rightarrow> (string \<times> usage_metadata option) \<times> genai_state" where
  "analyze_documents svc st api_key instruction_content docs_contents is_checklist =
     (let st1 = st\<lparr>configured_key := Some api_key\<rparr>;
          prompt = build_prompt instruction_content docs_contents is_checklist;
          st2 = st1\<lparr>requests := requests st1 @ [(api_key, prompt)]\<rparr>
      in case svc (length (requests st1)) api_key prompt of
           Returns (text, usage) \<Rightarrow> ((text, Some usage), st2)
         | Raises e \<Rightarrow> ((''Error during analysis: '' @ e, None), st2))"

section \<open>Result post-processing (app.py)\<close>

subsection \<open>The regular expression of \<open>extract_company_name\<close>\<close>









subsection \<open>The download name of the checklist\<close>





subsection \<open>Python floats\<close>








subsection \<open>What the page shows\<close>

datatype ui_event =
    Error string
  | Warning string
  | Info string
  | Success string
  | Code string
  | Download_button string string
  | Usage_stats int int int rat
  | Stop


section \<open>Content extraction (app.py)\<close>

text \<open>
  An uploaded file, with what the libraries make of its bytes: \<open>pdf_pages\<close> is the
  outcome of \<open>pypdf.PdfReader(uploaded_file).pages\<close> with, for each page, the outcome
  of \<open>page.extract_text()\<close>; \<open>decoded\<close> is the outcome of
  \<open>uploaded_file.read().decode("utf-8")\<close>.
\<close>

record uploaded_file =
  name :: string
  file_type :: string
  pdf_pages :: "string outcome list outcome"
  decoded :: "string outcome"

text \<open>The loop \<open>for page in pdf_reader.pages: text += page.extract_text() + "\n"\<close>.\<close>

fun extract_pages :: "string \<Rightarrow> string outcome list \<Rightarrow> string outcome" where
  "extract_pages text [] = Returns text"
| "extract_pages text (Raises e # pages) = Raises e"
| "extract_pages text (Returns t # pages) = extract_pages (text @ t @ ''\<newline>'') pages"

definition read_file_content :: "uploaded_file \<Rightarrow> string option \<times> ui_event list" where
  "read_file_content uploaded_file =
     (let r = (if file_type uploaded_file = ''application/pdf''
               then (case pdf_pages uploaded_file of
                       Raises e \<Rightarrow> Raises e
                     | Returns pages \<Rightarrow> extract_pages [] pages)
               else decoded uploaded_file)
      in case r of
           Returns text \<Rightarrow> (Some text, [])
         | Raises e \<Rightarrow> (None, [Error (''Error reading '' @ name uploaded_file @ '': '' @ e)]))"

text \<open>\<open>d[k] = v\<close> on a \<open>dict\<close>: a present key keeps its place, a new one goes last.\<close>

fun dict_set :: "docs_dict \<Rightarrow> string \<Rightarrow> string \<Rightarrow> docs_dict" where
  "dict_set [] k v = [(k, v)]"
| "dict_set ((k', v') # kvs) k v =
     (if k' = k then (k, v) # kvs else (k', v') # dict_set kvs k v)"

text \<open>
  The batch read of the documents: \<open>content\<close> is kept when it is truthy, that is
  neither \<open>None\<close> nor the empty string.
\<close>

fun read_docs :: "docs_dict \<Rightarrow> uploaded_file list \<Rightarrow> docs_dict \<times> ui_event list" where
  "read_docs docs_contents [] = (docs_contents, [])"
| "read_docs docs_contents (doc # doc_files) =
     (case read_file_content doc of (content, shown) \<Rightarrow>
        (case read_docs
                (case content of
                   None \<Rightarrow> docs_contents
                 | Some text \<Rightarrow> if text \<noteq> [] then dict_set docs_contents (name doc) text
                                else docs_contents)
                doc_files of
           (result, shown') \<Rightarrow> (result, shown @ shown')))"

section \<open>Credential resolution and the analysis run (app.py)\<close>


definition truthy :: "string option \<Rightarrow> bool" where
  "truthy k = (case k of None \<Rightarrow> False | Some s \<Rightarrow> s \<noteq> [])"

definition resolve_api_key :: "string \<Rightarrow> string option \<Rightarrow> string option" where
  "resolve_api_key user_api_key system_key =
     (if user_api_key \<noteq> [] then Some user_api_key
      else if truthy system_key then system_key
      else None)"




section \<open>The console variant (analyze\_docs.py)\<close>

text \<open>
  The file system as the script sees it: a path is missing, or exists but opening or
  decoding it raises, or holds text. \<open>write_error\<close> says for a path whether writing
  to it raises.
\<close>

datatype fs_entry = Missing | Unreadable string | Readable string

record os_world =
  files :: "string \<Rightarrow> fs_entry"
  write_error :: "string \<Rightarrow> string option"

definition path_exists :: "os_world \<Rightarrow> string \<Rightarrow> bool" where
  "path_exists w p = (files w p \<noteq> Missing)"

definition quoted :: "string \<Rightarrow> string" where
  "quoted p = [CHR 0x27] @ p @ [CHR 0x27]"

text \<open>\<open>open(p, 'r', encoding='utf-8')\<close> followed by \<open>f.read()\<close>.\<close>

definition read_text :: "os_world \<Rightarrow> string \<Rightarrow> string outcome" where
  "read_text w p =
     (case files w p of
        Readable t \<Rightarrow> Returns t
      | Unreadable e \<Rightarrow> Raises e
      | Missing \<Rightarrow> Raises (''[Errno 2] No such file or directory: '' @ quoted p))"

text \<open>\<open>s.split(',')\<close>, with the part read so far as accumulator.\<close>

fun split_comma :: "string \<Rightarrow> string \<Rightarrow> string list" where
  "split_comma cur [] = [cur]"
| "split_comma cur (c # cs) =
     (if c = CHR '','' then cur # split_comma [] cs else split_comma (cur @ [c]) cs)"

text \<open>\<open>str(n)\<close> of a non-negative integer.\<close>

fun str_nat :: "nat \<Rightarrow> string" where
  "str_nat n =
     (if n < 10 then [char_of (48 + n)]
      else str_nat (n div 10) @ [char_of (48 + n mod 10)])"

text \<open>The loop over \<open>doc_paths\<close> that keeps the existing paths and warns about the others.\<close>

fun check_docs :: "os_world \<Rightarrow> string list \<Rightarrow> string list \<times> string list" where
  "check_docs w [] = ([], [])"
| "check_docs w (p # ps) =
     (case check_docs w ps of (valid_docs, printed) \<Rightarrow>
        if path_exists w p then (p # valid_docs, printed)
        else (valid_docs, (''Warning: Document '' @ quoted p @ '' not found. Skipping.'') # printed))"

definition cli_doc_block :: "nat \<Rightarrow> string \<Rightarrow> string \<Rightarrow> string" where
  "cli_doc_block idx p content =
     ''\<newline>--- Document '' @ str_nat (idx + 1) @ '' ('' @ p @ '') ---\<newline>'' @ content @ ''\<newline>''"

text \<open>
  The loop \<open>for idx, p in enumerate(valid_docs)\<close>: the first document that cannot be
  read ends the run with its message.
\<close>

fun read_valid_docs :: "os_world \<Rightarrow> nat \<Rightarrow> string \<Rightarrow> string list \<Rightarrow> string outcome" where
  "read_valid_docs w idx docs_content [] = Returns docs_content"
| "read_valid_docs w idx docs_content (p # ps) =
     (case read_text w p of
        Returns content \<Rightarrow>
          read_valid_docs w (Suc idx) (docs_content @ cli_doc_block idx p content) ps
      | Raises e \<Rightarrow> Raises (''Error reading document '' @ quoted p @ '': '' @ e))"

definition cli_prompt :: "string \<Rightarrow> string \<Rightarrow> string" where
  "cli_prompt template_content docs_content =
     ''\<newline>    You are a helpful assistant that analyzes documents based on a specific template.\<newline>\<newline>    Here is the template you must follow for the output:\<newline>    ''
     @ template_content
     @ ''\<newline>\<newline>    Here are the documents to analyze:\<newline>    ''
     @ docs_content
     @ ''\<newline>\<newline>    Please analyze the documents and produce an output that strictly follows the format and structure of the provided template.\<newline>    ''"

text \<open>
  The result of a console run: the lines printed (the three input prompts apart), the
  file written if any, and the state of the client.
\<close>

record cli_result =
  printed :: "string list"
  written :: "(string \<times> string) option"
  client :: genai_state

definition cli_stop :: "genai_state \<Rightarrow> string list \<Rightarrow> cli_result" where
  "cli_stop st lines = \<lparr>printed = lines, written = None, client = st\<rparr>"

definition cli_generate ::
  "service \<Rightarrow> genai_state \<Rightarrow> os_world \<Rightarrow> string \<Rightarrow> string \<Rightarrow> string \<Rightarrow> string list
     \<Rightarrow> cli_result" where
  "cli_generate svc st w api_key prompt output_path lines =
     (let st' = st\<lparr>requests := requests st @ [(api_key, prompt)]\<rparr>;
          lines' = lines @ [''\<newline>Analyzing documents with Gemini...'']
      in case svc (length (requests st)) api_key prompt of
           Raises e \<Rightarrow> cli_stop st' (lines' @ [''An error occurred during analysis: '' @ e])
         | Returns (text, usage) \<Rightarrow>
             (case write_error w output_path of
                Some e \<Rightarrow> cli_stop st' (lines' @ [''An error occurred during analysis: '' @ e])
              | None \<Rightarrow>
                  \<lparr>printed = lines' @ [''\<newline>Analysis complete! Output saved to '' @ quoted output_path @ ''.''],
                   written = Some (output_path, text), client = st'\<rparr>))"

text \<open>
  \<open>analyze_documents\<close> of the console script, on the environment variable and the three
  lines typed at its prompts.
\<close>

definition cli_analyze_documents ::
  "service \<Rightarrow> genai_state \<Rightarrow> os_world \<Rightarrow> string option \<Rightarrow> string \<Rightarrow> string \<Rightarrow> string
     \<Rightarrow> cli_result" where
  "cli_analyze_documents svc st w env_key template_line docs_line output_line =
     (if \<not> truthy env_key
      then cli_stop st [''Error: GOOGLE_API_KEY not found in environment variables.'']
      else
        (let api_key = the env_key;
             st1 = st\<lparr>configured_key := Some api_key\<rparr>;
             banner = [''--- Gemini Document Analyzer ---''];
             template_path = strip template_line
         in if \<not> path_exists w template_path
            then cli_stop st1 (banner @ [''Error: Template file '' @ quoted template_path @ '' not found.''])
            else
              (case check_docs w (map strip (split_comma [] (strip docs_line))) of
                 (valid_docs, warnings) \<Rightarrow>
                   if valid_docs = []
                   then cli_stop st1 (banner @ warnings @ [''Error: No valid documents provided.''])
                   else if strip output_line = []
                   then cli_stop st1 (banner @ warnings @ [''Error: Output path cannot be empty.''])
                   else
                     (case read_text w template_path of
                        Raises e \<Rightarrow>
                          cli_stop st1 (banner @ warnings @ [''Error reading template file: '' @ e])
                      | Returns template_content \<Rightarrow>
                          (case read_valid_docs w 0 [] valid_docs of
                             Raises msg \<Rightarrow> cli_stop st1 (banner @ warnings @ [msg])
                           | Returns docs_content \<Rightarrow>
                               cli_generate svc st1 w api_key
                                 (cli_prompt template_content docs_content)
                                 (strip output_line) (banner @ warnings))))))"

section \<open>The specification's wording\<close>

text \<open>
  Definitions that follow the words of the specification, to compare with the code.
\<close>

text \<open>An optional credential source: a string that counts only when it is not empty.\<close>

definition given :: "string \<Rightarrow> string option" where
  "given s = (if s = [] then None else Some s)"


text \<open>Page texts in page order "with a newline between pages".\<close>

definition join_pages :: "string list \<Rightarrow> string" where
  "join_pages texts =
     concat (map (\<lambda>t. t @ ''\<newline>'') (butlast texts)) @ concat [last texts. texts \<noteq> []]"




section \<open>Sample inputs\<close>

text \<open>
  A file system with a template, two readable documents and one that exists but is not
  valid UTF-8; a client that has done nothing yet; a service that answers with the
  prompt it was given.
\<close>

definition no_files :: "string \<Rightarrow> fs_entry" where
  "no_files p = Missing"

definition never_fails :: "string \<Rightarrow> string option" where
  "never_fails p = None"

definition sample_files :: "string \<Rightarrow> fs_entry" where
  "sample_files = no_files(''t.txt'' := Readable ''T'', ''a.txt'' := Readable ''X'',
     ''b.txt'' := Unreadable ''invalid start byte'', ''c.txt'' := Readable ''Z'')"

definition sample_world :: os_world where
  "sample_world = \<lparr>files = sample_files, write_error = never_fails\<rparr>"

definition fresh_client :: genai_state where
  "fresh_client = \<lparr>configured_key = None, requests = []\<rparr>"

definition echo_service :: service where
  "echo_service n key prompt =
     Returns (prompt, \<lparr>prompt_token_count = 0, candidates_token_count = 0, total_token_count = 0\<rparr>)"

section \<open>Properties\<close>

subsection \<open>Analysis client\<close>

text \<open>
  Claim C2. Whatever the key, the instruction, the documents and the role: when the
  generation call raises (authentication, quota, malformed response, network), with
  message \<open>e\<close>, \<open>analyze_documents\<close> returns normally; the result text is
  \<open>Error during analysis: \<close> followed by \<open>e\<close>, which is not empty, and the usage is \<open>None\<close>.
\<close>

theorem analysis_failure_is_reported:
  assumes "svc (length (requests st)) api_key
             (build_prompt instruction_content docs_contents is_checklist) = Raises e"
  shows "fst (analyze_documents svc st api_key instruction_content docs_contents is_checklist)
           = (''Error during analysis: '' @ e, None)
         \<and> fst (fst (analyze_documents svc st api_key
                        instruction_content docs_contents is_checklist)) \<noteq> []"
  using assms by (simp add: analyze_documents_def)

theorem analysis_failure_is_reported_witness:
  "(\<lambda>n k p. Raises ''429 quota exceeded'')
       (length (requests \<lparr>configured_key = None, requests = []\<rparr>)) ''key''
       (build_prompt ''T'' [(''a.txt'', ''X'')] False)
     = (Raises ''429 quota exceeded'' :: (string \<times> usage_metadata) outcome)
   \<and> fst (analyze_documents (\<lambda>n k p. Raises ''429 quota exceeded'')
         \<lparr>configured_key = None, requests = []\<rparr> ''key'' ''T'' [(''a.txt'', ''X'')] False)
       = (''Error during analysis: 429 quota exceeded'', None)"
  using analysis_failure_is_reported
    [of "\<lambda>n k p. Raises ''429 quota exceeded''" "\<lparr>configured_key = None, requests = []\<rparr>"
        "''key''" "''T''" "[(''a.txt'', ''X'')]" False "''429 quota exceeded''"]
  by simp

subsection \<open>Prompt assembly\<close>

text \<open>
  Claim C3. The prompt is a function of the instruction text, the document mapping and
  the role flag alone: \<open>analyze_documents\<close> submits exactly \<open>build_prompt\<close> of the three,
  so two calls that agree on them submit the same string, whatever the key, the state
  of the client and the behaviour of the service are. Assembly reads no state and takes
  no other input.
\<close>

theorem prompt_depends_on_its_inputs_only:
  "requests (snd (analyze_documents svc st api_key instruction_content docs_contents is_checklist))
     = requests st @ [(api_key, build_prompt instruction_content docs_contents is_checklist)]
   \<and> snd (last (requests (snd (analyze_documents svc st api_key
                                   instruction_content docs_contents is_checklist))))
     = snd (last (requests (snd (analyze_documents svc' st' api_key'
                                   instruction_content docs_contents is_checklist))))"
  by (simp add: analyze_documents_def Let_def split: outcome.split prod.split)

subsection \<open>Credential resolution\<close>


text \<open>
  Claim C10. An empty override is no override: the resolved key is then the system key
  when that is not empty, and absent otherwise. Every non-empty override is the
  resolved key.
\<close>

theorem empty_override_is_no_override:
  "resolve_api_key [] system_key = Option.bind system_key given
   \<and> resolve_api_key (c # cs) system_key = Some (c # cs)"
  by (simp add: resolve_api_key_def truthy_def given_def split: option.split)

subsection \<open>Content extraction\<close>

lemma extract_pages_all:
  "extract_pages acc (map Returns texts)
     = Returns (acc @ concat (map (\<lambda>t. t @ ''\<newline>'') texts))"
  by (induction texts arbitrary: acc) simp_all

lemma join_pages_newline:
  "texts \<noteq> [] \<Longrightarrow> concat (map (\<lambda>t. t @ ''\<newline>'') texts) = join_pages texts @ ''\<newline>''"
  by (induction texts rule: rev_induct) (simp_all add: join_pages_def)

text \<open>
  Claim C9, as stated, fails: the newline is not put between the pages but after every
  page, the last one included. A PDF of the single page \<open>A\<close> is read as \<open>A\<close> followed by
  a newline.
\<close>

theorem pdf_single_page_counterexample:
  "read_file_content \<lparr>name = ''a.pdf'', file_type = ''application/pdf'',
       pdf_pages = Returns [Returns ''A''], decoded = Raises ''not text''\<rparr>
     \<noteq> (Some (join_pages [''A'']), [])"
  by (simp add: read_file_content_def join_pages_def)

text \<open>
  Claim C9, amended. For every PDF whose pages are extracted, the text is the page
  texts in page order, each followed by a newline; that is, for a PDF with pages, the
  texts joined by newlines and one more newline at the end. A page without text
  contributes the empty string (and its newline), no error.
\<close>

theorem pdf_pages_each_followed_by_newline:
  assumes "file_type f = ''application/pdf''" and "pdf_pages f = Returns (map Returns texts)"
  shows "read_file_content f = (Some (concat (map (\<lambda>t. t @ ''\<newline>'') texts)), [])
         \<and> (texts \<noteq> [] \<longrightarrow> read_file_content f = (Some (join_pages texts @ ''\<newline>''), []))"
  using assms by (simp add: read_file_content_def extract_pages_all join_pages_newline)

theorem pdf_pages_each_followed_by_newline_witness:
  "file_type \<lparr>name = ''a.pdf'', file_type = ''application/pdf'',
       pdf_pages = Returns (map Returns [''p1'', [], ''p3'']),
       decoded = Raises ''not text''\<rparr> = ''application/pdf''
   \<and> [''p1'', [], ''p3''] \<noteq> []
   \<and> read_file_content \<lparr>name = ''a.pdf'', file_type = ''application/pdf'',
       pdf_pages = Returns (map Returns [''p1'', [], ''p3'']), decoded = Raises ''not text''\<rparr>
     = (Some ''p1\<newline>\<newline>p3\<newline>'', [])"
  using pdf_pages_each_followed_by_newline
    [of "\<lparr>name = ''a.pdf'', file_type = ''application/pdf'',
       pdf_pages = Returns (map Returns [''p1'', [], ''p3'']), decoded = Raises ''not text''\<rparr>"
        "[''p1'', [], ''p3'']"]
  by simp

subsection \<open>Batch extraction\<close>

lemma dict_set_fresh: "k \<notin> fst ` set dc \<Longrightarrow> dict_set dc k v = dc @ [(k, v)]"
  by (induction dc) auto

lemma dict_set_values:
  "(k', v') \<in> set (dict_set dc k v) \<Longrightarrow> (k', v') \<in> set dc \<or> v' = v"
  by (induction dc) (auto split: if_splits)

lemma read_file_content_cases:
  "(\<exists>t. read_file_content f = (Some t, []))
   \<or> (\<exists>e. read_file_content f = (None, [Error (''Error reading '' @ name f @ '': '' @ e)]))"
  by (simp add: read_file_content_def Let_def split: outcome.split)

lemma read_docs_shown:
  "snd (read_docs dc doc_files) = concat (map (\<lambda>f. snd (read_file_content f)) doc_files)"
  by (induction doc_files arbitrary: dc) (simp_all add: case_prod_beta)

lemma read_docs_kept:
  "distinct (map name doc_files) \<Longrightarrow> \<forall>f \<in> set doc_files. name f \<notin> fst ` set dc \<Longrightarrow>
   fst (read_docs dc doc_files)
     = dc @ map (\<lambda>f. (name f, the (fst (read_file_content f))))
              (filter (\<lambda>f. truthy (fst (read_file_content f))) doc_files)"
proof (induction doc_files arbitrary: dc)
  case Nil
  then show ?case by simp
next
  case (Cons f doc_files)
  obtain content shown where rf: "read_file_content f = (content, shown)"
    by (cases "read_file_content f")
  show ?case
  proof (cases "truthy content")
    case True
    then obtain t where t: "content = Some t" "t \<noteq> []"
      by (auto simp: truthy_def split: option.splits)
    have fresh: "name f \<notin> fst ` set dc" using Cons.prems(2) by simp
    have "\<forall>g \<in> set doc_files. name g \<notin> fst ` set (dc @ [(name f, t)])"
      using Cons.prems by (auto simp: image_iff)
    with Cons.IH [of "dc @ [(name f, t)]"] Cons.prems(1)
    have "fst (read_docs (dc @ [(name f, t)]) doc_files)
            = (dc @ [(name f, t)]) @ map (\<lambda>f. (name f, the (fst (read_file_content f))))
                (filter (\<lambda>f. truthy (fst (read_file_content f))) doc_files)"
      by simp
    with rf t fresh True show ?thesis
      by (simp add: dict_set_fresh case_prod_beta)
  next
    case False
    then have same: "(case content of None \<Rightarrow> dc | Some t \<Rightarrow> if t \<noteq> [] then dict_set dc (name f) t else dc) = dc"
      by (auto simp: truthy_def split: option.splits)
    from Cons.IH [of dc] Cons.prems
    have "fst (read_docs dc doc_files)
            = dc @ map (\<lambda>f. (name f, the (fst (read_file_content f))))
                (filter (\<lambda>f. truthy (fst (read_file_content f))) doc_files)"
      by simp
    with rf same False show ?thesis
      by (simp add: case_prod_beta)
  qed
qed

lemma read_docs_nonempty:
  "\<forall>(k, v) \<in> set dc. v \<noteq> [] \<Longrightarrow> \<forall>(k, v) \<in> set (fst (read_docs dc doc_files)). v \<noteq> []"
proof (induction doc_files arbitrary: dc)
  case Nil
  then show ?case by simp
next
  case (Cons f doc_files)
  have step: "\<forall>(k, v) \<in> set (case fst (read_file_content f) of None \<Rightarrow> dc
          | Some t \<Rightarrow> if t \<noteq> [] then dict_set dc (name f) t else dc). v \<noteq> []"
    using Cons.prems by (auto split: option.split dest: dict_set_values)
  from Cons.IH [OF step] show ?case
    by (simp add: case_prod_beta)
qed

text \<open>
  Claim C6, amended. After the batch read of documents with distinct names, the mapping
  holds exactly the documents whose extraction returned a non-empty text, under their
  names and in their original order, so every key maps to non-empty text. A document
  whose extraction raises is dropped and an error naming it is shown; a document whose
  extraction returns the empty text is dropped and nothing is shown for it.
\<close>

theorem batch_extraction_keeps_readable_documents:
  assumes "distinct (map name doc_files)"
  shows "fst (read_docs [] doc_files)
           = map (\<lambda>f. (name f, the (fst (read_file_content f))))
               (filter (\<lambda>f. truthy (fst (read_file_content f))) doc_files)
         \<and> (\<forall>(k, v) \<in> set (fst (read_docs [] doc_files)). v \<noteq> [])
         \<and> snd (read_docs [] doc_files) = concat (map (\<lambda>f. snd (read_file_content f)) doc_files)
         \<and> (\<forall>f \<in> set doc_files.
               (fst (read_file_content f) = None \<longrightarrow>
                  (\<exists>e. snd (read_file_content f) = [Error (''Error reading '' @ name f @ '': '' @ e)]))
               \<and> (fst (read_file_content f) \<noteq> None \<longrightarrow> snd (read_file_content f) = []))"
proof -
  have 1: "fst (read_docs [] doc_files)
           = map (\<lambda>f. (name f, the (fst (read_file_content f))))
               (filter (\<lambda>f. truthy (fst (read_file_content f))) doc_files)"
    using read_docs_kept [OF assms, of "[]"] by simp
  have 2: "\<forall>(k, v) \<in> set (fst (read_docs [] doc_files)). v \<noteq> []"
    using read_docs_nonempty [of "[]" doc_files] by simp
  have 4: "(fst (read_file_content f) = None \<longrightarrow>
                  (\<exists>e. snd (read_file_content f) = [Error (''Error reading '' @ name f @ '': '' @ e)]))
               \<and> (fst (read_file_content f) \<noteq> None \<longrightarrow> snd (read_file_content f) = [])" for f
    using read_file_content_cases [of f] by auto
  from 1 2 4 show ?thesis
    by (simp add: read_docs_shown)
qed

text \<open>
  Claim C6, as stated, fails where it has every dropped document signalled: an empty
  text file uploaded with a readable one is left out of the mapping and the page
  shows no message at all.
\<close>

theorem empty_document_dropped_silently_counterexample:
  "read_docs []
     [\<lparr>name = ''a.txt'', file_type = ''text/plain'', pdf_pages = Raises ''not a PDF'', decoded = Returns []\<rparr>,
      \<lparr>name = ''b.txt'', file_type = ''text/plain'', pdf_pages = Raises ''not a PDF'', decoded = Returns ''Y''\<rparr>]
   = ([(''b.txt'', ''Y'')], [])"
  by (simp add: read_file_content_def)

theorem batch_extraction_keeps_readable_documents_witness:
  "distinct (map name
     [\<lparr>name = ''a.txt'', file_type = ''text/plain'', pdf_pages = Raises ''not a PDF'', decoded = Returns ''X''\<rparr>,
      \<lparr>name = ''b.pdf'', file_type = ''application/pdf'', pdf_pages = Raises ''EOF marker not found'', decoded = Raises ''invalid start byte''\<rparr>,
      \<lparr>name = ''c.md'', file_type = ''text/markdown'', pdf_pages = Raises ''not a PDF'', decoded = Returns ''Z''\<rparr>])
   \<and> read_docs []
     [\<lparr>name = ''a.txt'', file_type = ''text/plain'', pdf_pages = Raises ''not a PDF'', decoded = Returns ''X''\<rparr>,
      \<lparr>name = ''b.pdf'', file_type = ''application/pdf'', pdf_pages = Raises ''EOF marker not found'', decoded = Raises ''invalid start byte''\<rparr>,
      \<lparr>name = ''c.md'', file_type = ''text/markdown'', pdf_pages = Raises ''not a PDF'', decoded = Returns ''Z''\<rparr>]
     = ([(''a.txt'', ''X''), (''c.md'', ''Z'')], [Error ''Error reading b.pdf: EOF marker not found''])"
  using batch_extraction_keeps_readable_documents
    [of "[\<lparr>name = ''a.txt'', file_type = ''text/plain'', pdf_pages = Raises ''not a PDF'', decoded = Returns ''X''\<rparr>,
      \<lparr>name = ''b.pdf'', file_type = ''application/pdf'', pdf_pages = Raises ''EOF marker not found'', decoded = Raises ''invalid start byte''\<rparr>,
      \<lparr>name = ''c.md'', file_type = ''text/markdown'', pdf_pages = Raises ''not a PDF'', decoded = Returns ''Z''\<rparr>]"]
  by (simp add: read_file_content_def truthy_def prod_eq_iff)

subsection \<open>Structure of the prompts\<close>

lemma combine_docs_concat:
  "combine_docs acc docs = acc @ concat (map doc_block docs)"
  by (induction docs arbitrary: acc) simp_all

lemma blocks_in_order:
  assumes "i < j" and "j < length docs"
  shows "\<exists>pre mid post. concat (map f docs) = pre @ f (docs ! i) @ mid @ f (docs ! j) @ post
           \<and> pre = concat (map f (take i docs))"
proof -
  have i: "i < length docs" using assms by simp
  have "docs = take i docs @ docs ! i # drop (Suc i) docs"
    using i by (simp add: id_take_nth_drop)
  moreover have "drop (Suc i) docs
      = take (j - Suc i) (drop (Suc i) docs) @ docs ! j # drop (Suc j) docs"
  proof -
    have "j - Suc i < length (drop (Suc i) docs)" using assms by simp
    from id_take_nth_drop [OF this]
    show ?thesis using assms by (simp add: Suc_leI)
  qed
  ultimately have "docs = take i docs @ docs ! i #
      take (j - Suc i) (drop (Suc i) docs) @ docs ! j # drop (Suc j) docs"
    by simp
  then have "concat (map f docs) = concat (map f (take i docs @ docs ! i #
      take (j - Suc i) (drop (Suc i) docs) @ docs ! j # drop (Suc j) docs))"
    by simp
  then show ?thesis by (simp del: append_take_drop_id) blast
qed

lemma read_valid_docs_readable:
  "map (files w) ps = map Readable contents \<Longrightarrow>
   read_valid_docs w idx acc ps
     = Returns (acc @ concat (map (\<lambda>(i, p, t). cli_doc_block i p t)
                                (zip [idx..<idx + length ps] (zip ps contents))))"
proof (induction ps arbitrary: idx acc contents)
  case Nil
  then show ?case by simp
next
  case (Cons p ps)
  then obtain t ts where c: "contents = t # ts" "files w p = Readable t"
    "map (files w) ps = map Readable ts"
    by (cases contents) auto
  have up: "[idx..<Suc (idx + length ps)] = idx # [Suc idx..<Suc (idx + length ps)]"
    by (rule upt_conv_Cons) simp
  show ?case
    using Cons.IH [OF c(3), of "Suc idx" "acc @ cli_doc_block idx p t"] c(1,2)
    by (simp add: read_text_def up del: upt_Suc)
qed

text \<open>
  Claim C1, as stated, fails for the prompt of the web front end: the delimiter line of
  a document carries its filename and no position. For the mapping of \<open>a.txt\<close> to \<open>X\<close>
  and \<open>b.txt\<close> to \<open>Y\<close> the two lines are \<open>--- Document (a.txt) ---\<close> and
  \<open>--- Document (b.txt) ---\<close>, and neither digit occurs anywhere in the prompt.
\<close>

theorem ui_delimiter_has_no_position_counterexample:
  "combine_docs [] [(''a.txt'', ''X''), (''b.txt'', ''Y'')]
     = ''\<newline>--- Document (a.txt) ---\<newline>X\<newline>\<newline>--- Document (b.txt) ---\<newline>Y\<newline>''
   \<and> CHR ''1'' \<notin> set (build_prompt ''T'' [(''a.txt'', ''X''), (''b.txt'', ''Y'')] False)
   \<and> CHR ''2'' \<notin> set (build_prompt ''T'' [(''a.txt'', ''X''), (''b.txt'', ''Y'')] True)"
  by (simp add: build_prompt_def doc_block_def role_instruction_def)

text \<open>
  Claim C1, amended. The prompt of the web front end is the role preamble, the
  instruction text in its one slot, and one block per document of the mapping, in
  insertion order, each block being a delimiter line with the filename, the text and a
  newline; so the block of an earlier document stands before the block of a later one.
  The delimiter line has no position there. In the console variant the block of the
  document at index \<open>idx\<close> is introduced by a delimiter line with the 1-based position
  \<open>idx + 1\<close> and the path.
\<close>

theorem prompt_structure:
  "build_prompt instruction_content docs_contents is_checklist
     = ''\<newline>    '' @ role_instruction is_checklist
       @ ''\<newline>\<newline>    Here is the template/checklist you must follow for the output:\<newline>    ''
       @ instruction_content
       @ ''\<newline>\<newline>    Here are the documents to analyze:\<newline>    ''
       @ concat (map (\<lambda>(filename, content).
            ''\<newline>--- Document ('' @ filename @ '') ---\<newline>'' @ content @ ''\<newline>'') docs_contents)
       @ ''\<newline>\<newline>    Please analyze the documents and produce an output that strictly follows the format and structure of the provided template/checklist.\<newline>    ''
   \<and> (\<forall>i j. i < j \<and> j < length docs_contents \<longrightarrow>
         (\<exists>pre mid post. combine_docs [] docs_contents
            = pre @ doc_block (docs_contents ! i) @ mid @ doc_block (docs_contents ! j) @ post))
   \<and> (map (files w) valid_docs = map Readable contents \<longrightarrow>
         read_valid_docs w 0 [] valid_docs
           = Returns (concat (map (\<lambda>(idx, p, content).
                ''\<newline>--- Document '' @ str_nat (idx + 1) @ '' ('' @ p @ '') ---\<newline>'' @ content @ ''\<newline>'')
                (zip [0..<length valid_docs] (zip valid_docs contents)))))"
proof -
  have blk: "doc_block = (\<lambda>(filename, content).
            ''\<newline>--- Document ('' @ filename @ '') ---\<newline>'' @ content @ ''\<newline>'')"
    by (rule ext) (simp add: doc_block_def)
  have 1: "build_prompt instruction_content docs_contents is_checklist
     = ''\<newline>    '' @ role_instruction is_checklist
       @ ''\<newline>\<newline>    Here is the template/checklist you must follow for the output:\<newline>    ''
       @ instruction_content
       @ ''\<newline>\<newline>    Here are the documents to analyze:\<newline>    ''
       @ concat (map (\<lambda>(filename, content).
            ''\<newline>--- Document ('' @ filename @ '') ---\<newline>'' @ content @ ''\<newline>'') docs_contents)
       @ ''\<newline>\<newline>    Please analyze the documents and produce an output that strictly follows the format and structure of the provided template/checklist.\<newline>    ''"
    unfolding build_prompt_def combine_docs_concat blk by simp
  have 2: "\<exists>pre mid post. combine_docs [] docs_contents
            = pre @ doc_block (docs_contents ! i) @ mid @ doc_block (docs_contents ! j) @ post"
    if "i < j" "j < length docs_contents" for i j
    using blocks_in_order [OF that, of doc_block] by (simp add: combine_docs_concat) blast
  have 3: "read_valid_docs w 0 [] valid_docs
           = Returns (concat (map (\<lambda>(idx, p, content).
                ''\<newline>--- Document '' @ str_nat (idx + 1) @ '' ('' @ p @ '') ---\<newline>'' @ content @ ''\<newline>'')
                (zip [0..<length valid_docs] (zip valid_docs contents))))"
    if "map (files w) valid_docs = map Readable contents"
    using read_valid_docs_readable [OF that, of 0 "[]"] by (simp add: cli_doc_block_def)
  from 1 2 3 show ?thesis by blast
qed

lemma str_nat_1: "str_nat (Suc 0) = ''1''"
  by code_simp

lemma str_nat_2: "str_nat (Suc (Suc 0)) = ''2''"
  by code_simp
lemma strip_sample: "strip ''t.txt'' = ''t.txt''" "strip ''out.txt'' = ''out.txt''" 
  "strip ''a.txt, b.txt, c.txt'' = ''a.txt, b.txt, c.txt''" 
  "strip ''a.txt, zz.txt, c.txt'' = ''a.txt, zz.txt, c.txt''" 
  "strip ''zz.txt'' = ''zz.txt''"
  "strip ''a.txt'' = ''a.txt''" "strip '' b.txt'' = ''b.txt''" "strip '' c.txt'' = ''c.txt''" "strip '' zz.txt'' = ''zz.txt''"
  by code_simp+

theorem prompt_structure_witness:
  "(0::nat) < 1 \<and> 1 < length [(''a.txt'', ''X''), (''b.txt'', ''Y'')]
   \<and> (\<exists>pre mid post. combine_docs [] [(''a.txt'', ''X''), (''b.txt'', ''Y'')]
         = pre @ doc_block (''a.txt'', ''X'') @ mid @ doc_block (''b.txt'', ''Y'') @ post)
   \<and> map (files sample_world) [''a.txt'', ''c.txt''] = map Readable [''X'', ''Z'']
   \<and> read_valid_docs sample_world 0 [] [''a.txt'', ''c.txt'']
       = Returns ''\<newline>--- Document 1 (a.txt) ---\<newline>X\<newline>\<newline>--- Document 2 (c.txt) ---\<newline>Z\<newline>''"
proof -
  note s = prompt_structure [of "''T''" "[(''a.txt'', ''X''), (''b.txt'', ''Y'')]" False
      sample_world "[''a.txt'', ''c.txt'']" "[''X'', ''Z'']"]
  have f: "map (files sample_world) [''a.txt'', ''c.txt''] = map Readable [''X'', ''Z'']"
    by (simp add: sample_world_def sample_files_def)
  from s have "\<exists>pre mid post. combine_docs [] [(''a.txt'', ''X''), (''b.txt'', ''Y'')]
         = pre @ doc_block ([(''a.txt'', ''X''), (''b.txt'', ''Y'')] ! 0) @ mid
             @ doc_block ([(''a.txt'', ''X''), (''b.txt'', ''Y'')] ! 1) @ post"
    by (metis One_nat_def lessI length_Cons list.size(3) zero_less_one)
  moreover from s f have "read_valid_docs sample_world 0 [] [''a.txt'', ''c.txt'']
       = Returns ''\<newline>--- Document 1 (a.txt) ---\<newline>X\<newline>\<newline>--- Document 2 (c.txt) ---\<newline>Z\<newline>''"
    by (simp add: upt_rec str_nat_1 str_nat_2 del: str_nat.simps)
  ultimately show ?thesis using f by simp
qed

subsection \<open>The batch read of the console variant\<close>

lemma check_docs_filter:
  "check_docs w ps
     = (filter (path_exists w) ps,
        map (\<lambda>p. ''Warning: Document '' @ quoted p @ '' not found. Skipping.'')
          (filter (\<lambda>p. \<not> path_exists w p) ps))"
  by (induction ps) simp_all

lemma read_valid_docs_unreadable:
  "\<forall>p \<in> set ps. path_exists w p \<Longrightarrow> \<exists>p \<in> set ps. \<exists>e. files w p = Unreadable e \<Longrightarrow>
   \<exists>p e. p \<in> set ps \<and> files w p = Unreadable e
      \<and> read_valid_docs w idx acc ps = Raises (''Error reading document '' @ quoted p @ '': '' @ e)"
proof (induction ps arbitrary: idx acc)
  case Nil
  then show ?case by simp
next
  case (Cons p ps)
  show ?case
  proof (cases "files w p")
    case Missing
    with Cons.prems(1) show ?thesis by (simp add: path_exists_def)
  next
    case (Unreadable e)
    then show ?thesis by (auto simp: read_text_def)
  next
    case (Readable t)
    with Cons.prems have "\<forall>p \<in> set ps. path_exists w p" "\<exists>p \<in> set ps. \<exists>e. files w p = Unreadable e"
      by auto
    from Cons.IH [OF this, of "Suc idx" "acc @ cli_doc_block idx p t"] Readable
    show ?thesis by (auto simp: read_text_def)
  qed
qed

text \<open>
  Claim C7, amended. In the console variant, with a key, a readable template and an
  output path: a document path that does not exist is skipped with a warning and the
  others proceed; when no path exists the run ends with the message that no valid
  document was provided and submits nothing; when every existing document can be read
  one request is submitted, built from them in order; but an existing document that
  cannot be read or decoded is fatal: the run ends with its error message, with no
  request submitted and no file written.
\<close>

theorem console_batch_read:
  assumes "truthy env_key"
    and "files w (strip template_line) = Readable template_content"
    and "strip output_line \<noteq> []"
    and "valid_docs = filter (path_exists w) (map strip (split_comma [] (strip docs_line)))"
    and "run = cli_analyze_documents svc st w env_key template_line docs_line output_line"
  shows "check_docs w doc_paths
           = (filter (path_exists w) doc_paths,
              map (\<lambda>p. ''Warning: Document '' @ quoted p @ '' not found. Skipping.'')
                (filter (\<lambda>p. \<not> path_exists w p) doc_paths))
         \<and> (valid_docs = [] \<longrightarrow>
               last (printed run) = ''Error: No valid documents provided.''
               \<and> written run = None \<and> requests (client run) = requests st)
         \<and> ((\<exists>p \<in> set valid_docs. \<exists>e. files w p = Unreadable e) \<longrightarrow>
               (\<exists>p e. p \<in> set valid_docs \<and> files w p = Unreadable e
                  \<and> last (printed run) = ''Error reading document '' @ quoted p @ '': '' @ e)
               \<and> written run = None \<and> requests (client run) = requests st)
         \<and> (valid_docs \<noteq> [] \<and> map (files w) valid_docs = map Readable contents \<longrightarrow>
               requests (client run)
                 = requests st @ [(the env_key, cli_prompt template_content
                     (concat (map (\<lambda>(idx, p, content). cli_doc_block idx p content)
                        (zip [0..<length valid_docs] (zip valid_docs contents)))))])"
proof -
  have tmpl: "path_exists w (strip template_line)"
    "read_text w (strip template_line) = Returns template_content"
    using assms(2) by (simp_all add: path_exists_def read_text_def)
  have chk: "check_docs w (map strip (split_comma [] (strip docs_line)))
      = (valid_docs, map (\<lambda>p. ''Warning: Document '' @ quoted p @ '' not found. Skipping.'')
          (filter (\<lambda>p. \<not> path_exists w p) (map strip (split_comma [] (strip docs_line)))))"
    using assms(4) by (simp add: check_docs_filter)
  have 2: "last (printed run) = ''Error: No valid documents provided.''
      \<and> written run = None \<and> requests (client run) = requests st"
    if "valid_docs = []"
    using that assms(1) tmpl chk unfolding assms(5)
    by (simp add: cli_analyze_documents_def cli_stop_def Let_def)
  have 3: "(\<exists>p e. p \<in> set valid_docs \<and> files w p = Unreadable e
              \<and> last (printed run) = ''Error reading document '' @ quoted p @ '': '' @ e)
           \<and> written run = None \<and> requests (client run) = requests st"
    if bad: "\<exists>p \<in> set valid_docs. \<exists>e. files w p = Unreadable e"
  proof -
    have ex: "\<forall>p \<in> set valid_docs. path_exists w p" using assms(4) by simp
    from read_valid_docs_unreadable [OF ex bad, of 0 "[]"]
    obtain p e where pe: "p \<in> set valid_docs" "files w p = Unreadable e"
      "read_valid_docs w 0 [] valid_docs = Raises (''Error reading document '' @ quoted p @ '': '' @ e)"
      by blast
    have ne: "valid_docs \<noteq> []" using pe(1) by auto
    have "last (printed run) = ''Error reading document '' @ quoted p @ '': '' @ e
       \<and> written run = None \<and> requests (client run) = requests st"
      using ne pe(3) assms(1,3) tmpl chk unfolding assms(5)
      by (simp add: cli_analyze_documents_def cli_stop_def Let_def)
    with pe show ?thesis by blast
  qed
  have 4: "requests (client run)
                 = requests st @ [(the env_key, cli_prompt template_content
                     (concat (map (\<lambda>(idx, p, content). cli_doc_block idx p content)
                        (zip [0..<length valid_docs] (zip valid_docs contents)))))]"
    if ne: "valid_docs \<noteq> []" and rd: "map (files w) valid_docs = map Readable contents"
    using ne read_valid_docs_readable [OF rd, of 0 "[]"] assms(1,3) tmpl chk unfolding assms(5)
    by (simp add: cli_analyze_documents_def cli_generate_def cli_stop_def Let_def
          split: outcome.split option.split)
  from 2 3 4 show ?thesis by (simp add: check_docs_filter)
qed

text \<open>
  Claim C7, as stated, fails for a decode failure: with three existing documents of
  which the second is not valid UTF-8, the run prints the read error and stops; the
  two readable documents are not analysed.
\<close>

theorem unreadable_document_aborts_run_counterexample:
  "cli_analyze_documents echo_service fresh_client sample_world (Some ''key'')
       ''t.txt'' ''a.txt, b.txt, c.txt'' ''out.txt''
     = \<lparr>printed = [''--- Gemini Document Analyzer ---'',
                     ''Error reading document 'b.txt': invalid start byte''],
        written = None,
        client = \<lparr>configured_key = Some ''key'', requests = []\<rparr>\<rparr>"
  by (simp add: cli_analyze_documents_def strip_sample truthy_def path_exists_def
        sample_world_def sample_files_def no_files_def read_text_def cli_stop_def
        fresh_client_def quoted_def)

theorem console_batch_read_witness:
  "truthy (Some ''key'') \<and> files sample_world (strip ''t.txt'') = Readable ''T''
   \<and> strip ''out.txt'' \<noteq> []
   \<and> filter (path_exists sample_world) (map strip (split_comma [] (strip ''a.txt, zz.txt, c.txt'')))
       = [''a.txt'', ''c.txt'']
   \<and> map (files sample_world) [''a.txt'', ''c.txt''] = map Readable [''X'', ''Z'']
   \<and> check_docs sample_world [''a.txt'', ''zz.txt'', ''c.txt'']
       = ([''a.txt'', ''c.txt''], [''Warning: Document 'zz.txt' not found. Skipping.''])
   \<and> requests (client (cli_analyze_documents echo_service fresh_client sample_world (Some ''key'')
         ''t.txt'' ''a.txt, zz.txt, c.txt'' ''out.txt''))
       = [(''key'', cli_prompt ''T''
            ''\<newline>--- Document 1 (a.txt) ---\<newline>X\<newline>\<newline>--- Document 2 (c.txt) ---\<newline>Z\<newline>'')]
   \<and> filter (path_exists sample_world) (map strip (split_comma [] (strip ''a.txt, b.txt, c.txt'')))
       = [''a.txt'', ''b.txt'', ''c.txt'']
   \<and> files sample_world ''b.txt'' = Unreadable ''invalid start byte''
   \<and> written (cli_analyze_documents echo_service fresh_client sample_world (Some ''key'')
         ''t.txt'' ''a.txt, b.txt, c.txt'' ''out.txt'') = None
   \<and> requests (client (cli_analyze_documents echo_service fresh_client sample_world (Some ''key'')
         ''t.txt'' ''a.txt, b.txt, c.txt'' ''out.txt'')) = []
   \<and> filter (path_exists sample_world) (map strip (split_comma [] (strip ''zz.txt''))) = []
   \<and> last (printed (cli_analyze_documents echo_service fresh_client sample_world (Some ''key'')
         ''t.txt'' ''zz.txt'' ''out.txt'')) = ''Error: No valid documents provided.''"
proof -
  have k: "truthy (Some ''key'')" by (simp add: truthy_def)
  have t: "files sample_world (strip ''t.txt'') = Readable ''T''"
    by (simp add: strip_sample sample_world_def sample_files_def)
  have out: "strip ''out.txt'' \<noteq> []" by (simp add: strip_sample)
  have v1: "[''a.txt'', ''c.txt'']
      = filter (path_exists sample_world) (map strip (split_comma [] (strip ''a.txt, zz.txt, c.txt'')))"
    by (simp add: strip_sample path_exists_def sample_world_def sample_files_def no_files_def)
  have v2: "[''a.txt'', ''b.txt'', ''c.txt'']
      = filter (path_exists sample_world) (map strip (split_comma [] (strip ''a.txt, b.txt, c.txt'')))"
    by (simp add: strip_sample path_exists_def sample_world_def sample_files_def no_files_def)
  have v3: "[] = filter (path_exists sample_world) (map strip (split_comma [] (strip ''zz.txt'')))"
    by (simp add: strip_sample path_exists_def sample_world_def sample_files_def no_files_def)
  have r1: "map (files sample_world) [''a.txt'', ''c.txt''] = map Readable [''X'', ''Z'']"
    by (simp add: sample_world_def sample_files_def)
  have b: "files sample_world ''b.txt'' = Unreadable ''invalid start byte''"
    by (simp add: sample_world_def sample_files_def)
  have ex: "path_exists sample_world ''a.txt''" "\<not> path_exists sample_world ''zz.txt''"
    "path_exists sample_world ''c.txt''"
    by (simp_all add: path_exists_def sample_world_def sample_files_def no_files_def)
  from console_batch_read [OF k t out v1 refl,
      of "[''a.txt'', ''zz.txt'', ''c.txt'']" echo_service fresh_client "[''X'', ''Z'']"] r1 ex
  have 1: "check_docs sample_world [''a.txt'', ''zz.txt'', ''c.txt'']
       = ([''a.txt'', ''c.txt''], [''Warning: Document 'zz.txt' not found. Skipping.''])
     \<and> requests (client (cli_analyze_documents echo_service fresh_client sample_world (Some ''key'')
         ''t.txt'' ''a.txt, zz.txt, c.txt'' ''out.txt''))
       = [(''key'', cli_prompt ''T''
            ''\<newline>--- Document 1 (a.txt) ---\<newline>X\<newline>\<newline>--- Document 2 (c.txt) ---\<newline>Z\<newline>'')]"
    by (simp add: upt_rec cli_doc_block_def str_nat_1 str_nat_2 fresh_client_def quoted_def
          del: str_nat.simps)
  from console_batch_read [OF k t out v2 refl, of "[]" echo_service fresh_client "[]"] b
  have 2: "written (cli_analyze_documents echo_service fresh_client sample_world (Some ''key'')
         ''t.txt'' ''a.txt, b.txt, c.txt'' ''out.txt'') = None
     \<and> requests (client (cli_analyze_documents echo_service fresh_client sample_world (Some ''key'')
         ''t.txt'' ''a.txt, b.txt, c.txt'' ''out.txt'')) = []"
    by (simp add: fresh_client_def)
  from console_batch_read [OF k t out v3 refl, of "[]" echo_service fresh_client "[]"]
  have 3: "last (printed (cli_analyze_documents echo_service fresh_client sample_world (Some ''key'')
         ''t.txt'' ''zz.txt'' ''out.txt'')) = ''Error: No valid documents provided.''"
    by simp
  from k t out v1 [symmetric] v2 [symmetric] v3 [symmetric] r1 b 1 2 3 show ?thesis
    by simp
qed

subsection \<open>Filename derivation\<close>













subsection \<open>Cost estimation\<close>














end
